theory Spec2Isabelle
  imports Main
begin

section \<open>Python values used by the config flow\<close>

text \<open>
  The module talks to three collaborators: the socket library (\<open>socket.gethostbyname\<close>),
  the Modbus client (\<open>ModbusTcpClient\<close>: \<open>connect\<close>, \<open>read_holding_registers\<close>,
  \<open>close\<close>) and the platform (existing entries, the coordinator). Their answers are
  parameters of the model; every call to one of them is recorded in a trace of events, so
  that "no socket was opened" and "close was called once" are statements about a list.

  An exception is a class and its text (\<open>str(err)\<close>). The classes are the ones the source
  tells apart: \<open>except OSError\<close>, \<open>except asyncio.TimeoutError\<close>,
  \<open>except (socket.gaierror, TypeError)\<close>, \<open>except Exception\<close>, and the
  \<open>ConnectionError\<close> it raises itself. \<open>ConnectionError\<close>, \<open>TimeoutError\<close> and
  \<open>gaierror\<close> are subclasses of \<open>OSError\<close>; every class is a subclass of \<open>Exception\<close>.
  \<open>UnicodeError\<close>, which the resolver raises for a name it cannot encode, is a
  \<open>ValueError\<close>: no \<open>OSError\<close> and no \<open>TypeError\<close>.
  Signals that are not instances of \<open>Exception\<close> (task cancellation, interpreter exit) are
  not values of this type.
\<close>

datatype exn_class =
    OSError | ConnectionError | TimeoutError | gaierror | TypeError | UnicodeError | Exception

datatype exn = Exn (exn_cls: exn_class) (exn_str: string)

fun isinstance_OSError :: "exn \<Rightarrow> bool" where
  "isinstance_OSError (Exn c m) =
     (c = OSError \<or> c = ConnectionError \<or> c = TimeoutError \<or> c = gaierror)"

fun isinstance_TimeoutError :: "exn \<Rightarrow> bool" where
  "isinstance_TimeoutError (Exn c m) = (c = TimeoutError)"

fun isinstance_gaierror_or_TypeError :: "exn \<Rightarrow> bool" where
  "isinstance_gaierror_or_TypeError (Exn c m) = (c = gaierror \<or> c = TypeError)"

text \<open>
  \<open>str.lower\<close> on the ASCII letters, and the substring test \<open>sub in s\<close>.
\<close>

definition lower_char :: "char \<Rightarrow> char" where
  "lower_char c =
     (case map_of (zip ''ABCDEFGHIJKLMNOPQRSTUVWXYZ'' ''abcdefghijklmnopqrstuvwxyz'') c of
        None \<Rightarrow> c
      | Some d \<Rightarrow> d)"

definition lower :: "string \<Rightarrow> string" where
  "lower s = map lower_char s"

fun startswith :: "string \<Rightarrow> string \<Rightarrow> bool" where
  "startswith s [] = True"
| "startswith [] (p # ps) = False"
| "startswith (c # cs) (p # ps) = (c = p \<and> startswith cs ps)"

fun str_in :: "string \<Rightarrow> string \<Rightarrow> bool" where
  "str_in sub [] = (sub = [])"
| "str_in sub (c # cs) = (startswith (c # cs) sub \<or> str_in sub cs)"

section \<open>The Modbus client and the network\<close>

text \<open>
  What \<open>read_holding_registers\<close> hands back: an object whose \<open>isError()\<close> is true, with
  its \<open>exception_code\<close> attribute when it has one, or a data response. The call may also
  return \<open>None\<close> or raise.
\<close>

datatype response = ErrorResponse (exception_code: "int option") | DataResponse (registers: "int list")

datatype event =
    GetHostByName "string option"
  | Connect string int
  | ReadHoldingRegisters int int int
  | Close

record network =
  gethostbyname :: "string \<Rightarrow> exn + string"
  connect :: "string \<Rightarrow> int \<Rightarrow> exn + bool"
  read_holding_registers :: "string \<Rightarrow> int \<Rightarrow> int \<Rightarrow> int \<Rightarrow> int \<Rightarrow> exn + response option"
  close :: "string \<Rightarrow> int \<Rightarrow> exn + unit"

section \<open>The connection test\<close>

text \<open>
  The handler of \<open>except OSError as err\<close>: the error key is chosen from the lower-cased
  text of the error, in this order.
\<close>

definition except_OSError :: "exn \<Rightarrow> string" where
  "except_OSError err =
     (let err_msg = lower (exn_str err) in
      if str_in ''permission denied'' err_msg then ''permission_denied''
      else if str_in ''connection refused'' err_msg then ''connection_refused''
      else if str_in ''timed out'' err_msg \<or> str_in ''timeout'' err_msg then ''timed_out''
      else ''cannot_connect'')"

text \<open>
  The inner \<open>try\<close>: one read of register 32101, count 1, for the given unit. Both of its
  handlers (\<open>asyncio.TimeoutError\<close>, \<open>Exception\<close>) return \<open>"unit_id_no_response"\<close>, so
  the block always returns a value: \<open>None\<close> for success or an error key.
\<close>

definition check_result :: "response option \<Rightarrow> string option" where
  "check_result result =
     (case result of
        None \<Rightarrow> Some ''unit_id_no_response''
      | Some (ErrorResponse error_code) \<Rightarrow>
          (if error_code \<in> set (map Some [1, 2, 3, 4]) then None
           else Some ''unit_id_no_response'')
      | Some (DataResponse regs) \<Rightarrow> None)"

definition test_read :: "network \<Rightarrow> string \<Rightarrow> int \<Rightarrow> int \<Rightarrow> string option \<times> event list" where
  "test_read net host port unit_id =
     (case read_holding_registers net host port 32101 1 unit_id of
        Inl e \<Rightarrow>
          (if isinstance_TimeoutError e then Some ''unit_id_no_response''
           else Some ''unit_id_no_response'')
      | Inr result \<Rightarrow> check_result result,
      [ReadHoldingRegisters 32101 1 unit_id])"

text \<open>
  The body of the outer \<open>try\<close>: connect, raise \<open>ConnectionError("Unable to connect")\<close>
  when \<open>connect()\<close> is falsy, else the inner \<open>try\<close>. It returns a value or raises.
\<close>

definition try_body :: "network \<Rightarrow> string \<Rightarrow> int \<Rightarrow> int \<Rightarrow> (exn + string option) \<times> event list" where
  "try_body net host port unit_id =
     (case connect net host port of
        Inl e \<Rightarrow> (Inl e, [Connect host port])
      | Inr connected \<Rightarrow>
          if \<not> connected then (Inl (Exn ConnectionError ''Unable to connect''), [Connect host port])
          else (let (r, tr) = test_read net host port unit_id
                in (Inr r, Connect host port # tr)))"

text \<open>
  The \<open>finally\<close> block: \<open>client.close()\<close>, any exception of it swallowed.
\<close>

definition finally_close :: "network \<Rightarrow> string \<Rightarrow> int \<Rightarrow> event list" where
  "finally_close net host port =
     (case close net host port of Inl e \<Rightarrow> [Close] | Inr u \<Rightarrow> [Close])"

text \<open>
  The whole function: the body, the two outer handlers (\<open>OSError\<close>, then \<open>Exception\<close>),
  the \<open>finally\<close> block. The result is \<open>Inr None\<close> (success), \<open>Inr (Some key)\<close>, or
  \<open>Inl e\<close> if an exception left the function. Creating the client, before the
  \<open>try\<close>, only stores the host, the port and the timeout: it makes no call to the network
  and is taken not to fail.
\<close>

definition async_test_modbus_connection ::
  "network \<Rightarrow> string \<Rightarrow> int \<Rightarrow> int \<Rightarrow> (exn + string option) \<times> event list" where
  "async_test_modbus_connection net host port unit_id =
     (let (r, tr) = try_body net host port unit_id;
          r' = (case r of
                  Inr v \<Rightarrow> Inr v
                | Inl err \<Rightarrow>
                    if isinstance_OSError err then Inr (Some (except_OSError err))
                    else Inr (Some ''cannot_connect''))
      in (r', tr @ finally_close net host port))"

section \<open>Constants and dictionaries\<close>

text \<open>
  \<open>const.py\<close> is not among the sources, so its constants are parameters.
  \<open>SUPPORTED_VERSIONS\<close> is only read at index 0 here, and \<open>DEFAULT_SCAN_INTERVALS\<close> is
  indexed with the four interval keys; both are taken to hold what is read from them.
\<close>

record const =
  DEFAULT_PORT :: int
  DEFAULT_UNIT_ID :: int
  DEFAULT_SCAN_INTERVALS :: "string \<Rightarrow> int"
  SUPPORTED_VERSIONS_0 :: string

text \<open>
  The dictionaries have fixed keys, so each is a record of optional fields: a key that is
  absent is \<open>None\<close>, and \<open>d.get(key, default)\<close> is \<open>dict_get\<close>.
\<close>

definition dict_get :: "'a option \<Rightarrow> 'a \<Rightarrow> 'a" where
  "dict_get field dflt = (case field of None \<Rightarrow> dflt | Some v \<Rightarrow> v)"

record user_input =
  ui_host :: "string option"
  ui_port :: "int option"
  ui_unit_id :: "int option"
  ui_device_version :: "string option"

record options_dict =
  opt_unit_id :: "int option"
  opt_high :: "int option"
  opt_medium :: "int option"
  opt_low :: "int option"
  opt_very_low :: "int option"

record entry_data =
  data_host :: "string option"
  data_port :: "int option"
  data_device_version :: "string option"
  data_unit_id :: "int option"
  data_high :: "int option"
  data_medium :: "int option"
  data_low :: "int option"
  data_very_low :: "int option"

record config_entry =
  entry_id :: string
  data :: entry_data
  options :: options_dict

section \<open>The user step of the config flow\<close>

text \<open>
  A step ends by showing the form again (with the \<open>errors\<close> dictionary, which is empty
  or holds the key \<open>"base"\<close>, and the defaults of the form's fields), by aborting, or by
  creating the entry. The labels and placeholders of the form are not modelled.
\<close>

record form_defaults =
  fd_host :: "string option"
  fd_port :: int
  fd_unit_id :: int
  fd_device_version :: string

datatype flow_result =
    ShowForm string "(string \<times> string option) list" form_defaults
  | Abort string
  | CreateEntry string entry_data

text \<open>
  Python's \<open>x or default\<close> on an optional string and on an optional integer:
  \<open>None\<close>, the empty string and \<open>0\<close> are falsy.
\<close>

definition str_or :: "string option \<Rightarrow> string \<Rightarrow> string" where
  "str_or x dflt = (case x of None \<Rightarrow> dflt | Some s \<Rightarrow> if s = [] then dflt else s)"

definition int_or :: "int option \<Rightarrow> int \<Rightarrow> int" where
  "int_or x dflt = (case x of None \<Rightarrow> dflt | Some n \<Rightarrow> if n = 0 then dflt else n)"

definition falsy :: "string option \<Rightarrow> bool" where
  "falsy x = (case x of None \<Rightarrow> True | Some s \<Rightarrow> s = [])"

text \<open>
  The form at the end of the step, with the values entered so far as defaults.
\<close>

definition show_user_form ::
  "const \<Rightarrow> user_input option \<Rightarrow> (string \<times> string option) list \<Rightarrow> flow_result" where
  "show_user_form c user_input errors =
     ShowForm ''user'' errors
       \<lparr>fd_host = Some (str_or (case user_input of None \<Rightarrow> None | Some ui \<Rightarrow> ui_host ui) []),
        fd_port = int_or (case user_input of None \<Rightarrow> None | Some ui \<Rightarrow> ui_port ui) (DEFAULT_PORT c),
        fd_unit_id =
          int_or (case user_input of None \<Rightarrow> None | Some ui \<Rightarrow> ui_unit_id ui) (DEFAULT_UNIT_ID c),
        fd_device_version =
          str_or (case user_input of None \<Rightarrow> None | Some ui \<Rightarrow> ui_device_version ui)
            (SUPPORTED_VERSIONS_0 c)\<rparr>"

text \<open>
  The loop over the current entries: it stops at the first entry with the same host and
  the same unit id.
\<close>

fun already_configured :: "entry_data list \<Rightarrow> string \<Rightarrow> int \<Rightarrow> bool" where
  "already_configured [] host unit_id = False"
| "already_configured (entry # entries) host unit_id =
     (if data_host entry = Some host \<and> data_unit_id entry = Some unit_id then True
      else already_configured entries host unit_id)"

text \<open>
  The step. \<open>socket.gethostbyname\<close> of a host that is \<open>None\<close> raises \<open>TypeError\<close>,
  which the step catches like \<open>gaierror\<close>; any other exception of the resolver leaves the
  step. The result comes with the trace of the calls to the network.
\<close>

definition async_step_user ::
  "const \<Rightarrow> network \<Rightarrow> entry_data list \<Rightarrow> (string \<rightharpoonup> string) \<Rightarrow> user_input option
     \<Rightarrow> (exn + flow_result) \<times> event list" where
  "async_step_user c net current_entries translations user_input =
     (case user_input of
        None \<Rightarrow> (Inr (show_user_form c user_input []), [])
      | Some ui \<Rightarrow>
          (let host = ui_host ui;
               port = dict_get (ui_port ui) (DEFAULT_PORT c);
               device_version = dict_get (ui_device_version ui) (SUPPORTED_VERSIONS_0 c);
               unit_id = dict_get (ui_unit_id ui) (DEFAULT_UNIT_ID c);
               errors =
                 (if \<not> (1 \<le> port \<and> port \<le> 65535) then [(''base'', Some ''invalid_port'')]
                  else if \<not> (1 \<le> unit_id \<and> unit_id \<le> 255) then [(''base'', Some ''invalid_unit_id'')]
                  else [])
           in if errors \<noteq> [] then
                (Inr (ShowForm ''user'' errors
                        \<lparr>fd_host = host, fd_port = port, fd_unit_id = unit_id,
                         fd_device_version = device_version\<rparr>), [])
              else
                (case host of
                   None \<Rightarrow>
                     (Inr (show_user_form c user_input [(''base'', Some ''invalid_host'')]),
                      [GetHostByName host])
                 | Some h \<Rightarrow>
                     (case gethostbyname net h of
                        Inl e \<Rightarrow>
                          if isinstance_gaierror_or_TypeError e then
                            (Inr (show_user_form c user_input [(''base'', Some ''invalid_host'')]),
                             [GetHostByName host])
                          else (Inl e, [GetHostByName host])
                      | Inr address \<Rightarrow>
                          if already_configured current_entries h unit_id then
                            (Inr (Abort ''already_configured''), [GetHostByName host])
                          else
                            (let (r, tr) = async_test_modbus_connection net h port unit_id
                             in case r of
                                  Inl e \<Rightarrow> (Inl e, GetHostByName host # tr)
                                | Inr base \<Rightarrow>
                                    if falsy base then
                                      (Inr (CreateEntry
                                              (dict_get (translations ''config.step.user.title'')
                                                 ''Marstek Venus Modbus'')
                                              \<lparr>data_host = host, data_port = Some port,
                                               data_device_version = Some device_version,
                                               data_unit_id = Some unit_id,
                                               data_high = None, data_medium = None,
                                               data_low = None, data_very_low = None\<rparr>),
                                       GetHostByName host # tr)
                                    else
                                      (Inr (show_user_form c user_input [(''base'', base)]),
                                       GetHostByName host # tr))))))"

section \<open>The options step\<close>

text \<open>
  The schema of the options form: each of its five keys has a default and the validator
  \<open>vol.All(vol.Coerce(int), vol.Clamp(min, max))\<close>. Submitted values are integers, on
  which \<open>Coerce(int)\<close> changes nothing. \<open>Clamp\<close> raises a value below \<open>min\<close> to
  \<open>min\<close>, then lowers a value above \<open>max\<close> to \<open>max\<close>.
\<close>

definition Coerce_int :: "int \<Rightarrow> int" where
  "Coerce_int v = v"

definition Clamp :: "int \<Rightarrow> int \<Rightarrow> int \<Rightarrow> int" where
  "Clamp lo hi v =
     (let v1 = (if v < lo then lo else v) in
      if v1 > hi then hi else v1)"

record field_schema =
  fs_default :: int
  fs_min :: int
  fs_max :: int

record options_schema =
  s_unit_id :: field_schema
  s_high :: field_schema
  s_medium :: field_schema
  s_low :: field_schema
  s_very_low :: field_schema

datatype options_result =
    OptionsForm options_schema int
  | OptionsCreateEntry options_dict

text \<open>
  The coordinator of the entry, when there is one: the unit id of its client and the
  intervals it polls at. \<open>_update_scan_intervals\<close> belongs to the coordinator, which is not
  among the sources; it is a parameter, any function from the coordinator and the input to
  the coordinator. The calls the step makes to the coordinator are recorded as
  notifications.
\<close>

record coordinator =
  client_unit_id :: int
  scan_intervals :: options_dict

datatype notification = UpdateScanIntervals options_dict | SetUnitId int

text \<open>
  The defaults of the form: the entry's options, then its data, then the constant.
\<close>

definition interval_default ::
  "const \<Rightarrow> config_entry \<Rightarrow> (options_dict \<Rightarrow> int option) \<Rightarrow> (entry_data \<Rightarrow> int option) \<Rightarrow> string
     \<Rightarrow> int" where
  "interval_default c config opt_key data_key key =
     dict_get (opt_key (options config))
       (dict_get (data_key (data config)) (DEFAULT_SCAN_INTERVALS c key))"

definition unit_id_default :: "const \<Rightarrow> config_entry \<Rightarrow> int" where
  "unit_id_default c config =
     dict_get (opt_unit_id (options config))
       (dict_get (data_unit_id (data config)) (DEFAULT_UNIT_ID c))"

definition init_schema :: "const \<Rightarrow> config_entry \<Rightarrow> options_schema" where
  "init_schema c config =
     \<lparr>s_unit_id = \<lparr>fs_default = unit_id_default c config, fs_min = 1, fs_max = 255\<rparr>,
      s_high =
        \<lparr>fs_default = interval_default c config opt_high data_high ''high'',
         fs_min = 1, fs_max = 3600\<rparr>,
      s_medium =
        \<lparr>fs_default = interval_default c config opt_medium data_medium ''medium'',
         fs_min = 1, fs_max = 3600\<rparr>,
      s_low =
        \<lparr>fs_default = interval_default c config opt_low data_low ''low'',
         fs_min = 1, fs_max = 3600\<rparr>,
      s_very_low =
        \<lparr>fs_default = interval_default c config opt_very_low data_very_low ''very_low'',
         fs_min = 1, fs_max = 3600\<rparr>\<rparr>"

text \<open>
  The step. Without input it shows the form, with the lowest of the four default
  intervals as a placeholder. With input it updates the coordinator, if the entry has one,
  and creates the options entry from the input as it is.
\<close>

definition async_step_init ::
  "const \<Rightarrow> (coordinator \<Rightarrow> options_dict \<Rightarrow> coordinator) \<Rightarrow> coordinator option \<Rightarrow> config_entry
     \<Rightarrow> options_dict option \<Rightarrow> options_result \<times> notification list \<times> coordinator option" where
  "async_step_init c update_scan_intervals coord config user_input =
     (let default_unit_id = unit_id_default c config
      in case user_input of
           Some ui \<Rightarrow>
             (case coord of
                None \<Rightarrow> (OptionsCreateEntry ui, [], None)
              | Some co \<Rightarrow>
                  (let co1 = update_scan_intervals co ui;
                       new_unit_id = dict_get (opt_unit_id ui) default_unit_id
                   in if new_unit_id \<noteq> client_unit_id co1 then
                        (OptionsCreateEntry ui,
                         [UpdateScanIntervals ui, SetUnitId new_unit_id],
                         Some (co1\<lparr>client_unit_id := new_unit_id\<rparr>))
                      else (OptionsCreateEntry ui, [UpdateScanIntervals ui], Some co1)))
         | None \<Rightarrow>
             (OptionsForm (init_schema c config)
                (min (interval_default c config opt_high data_high ''high'')
                   (min (interval_default c config opt_medium data_medium ''medium'')
                      (min (interval_default c config opt_low data_low ''low'')
                         (interval_default c config opt_very_low data_very_low ''very_low'')))),
              [], coord))"

text \<open>
  How the form's schema treats a submission: a key that is missing gets the key's
  default, and every value, submitted or default, goes through the validator.
\<close>

definition validate_field :: "field_schema \<Rightarrow> int option \<Rightarrow> int option" where
  "validate_field fs submitted =
     Some (Clamp (fs_min fs) (fs_max fs) (Coerce_int (dict_get submitted (fs_default fs))))"

definition validate_schema :: "options_schema \<Rightarrow> options_dict \<Rightarrow> options_dict" where
  "validate_schema schema submitted =
     \<lparr>opt_unit_id = validate_field (s_unit_id schema) (opt_unit_id submitted),
      opt_high = validate_field (s_high schema) (opt_high submitted),
      opt_medium = validate_field (s_medium schema) (opt_medium submitted),
      opt_low = validate_field (s_low schema) (opt_low submitted),
      opt_very_low = validate_field (s_very_low schema) (opt_very_low submitted)\<rparr>"

text \<open>
  One pass through the options flow, as the platform drives it: the submission is
  validated against the schema of the form that was shown, the step is called with the
  validated input, and the data of the entry it creates become the options of the config
  entry. The result is the updated entry, the notifications and the coordinator.
\<close>

definition reconcile ::
  "const \<Rightarrow> (coordinator \<Rightarrow> options_dict \<Rightarrow> coordinator) \<Rightarrow> coordinator option \<Rightarrow> config_entry
     \<Rightarrow> options_dict \<Rightarrow> config_entry \<times> notification list \<times> coordinator option" where
  "reconcile c update_scan_intervals coord config submitted =
     (let user_input = validate_schema (init_schema c config) submitted;
          (result, sent, coord') =
            async_step_init c update_scan_intervals coord config (Some user_input)
      in (case result of
            OptionsCreateEntry new_options \<Rightarrow> config\<lparr>options := new_options\<rparr>
          | OptionsForm schema lowest \<Rightarrow> config,
          sent, coord'))"

section \<open>Example inputs\<close>

text \<open>
  A network that gives the same answer to every call of each kind, a set of constants, a
  submission of the user form, a registered entry and its config entry. The theorems are
  applied to them below.
\<close>

definition fake_network ::
  "exn + string \<Rightarrow> exn + bool \<Rightarrow> exn + response option \<Rightarrow> exn + unit \<Rightarrow> network" where
  "fake_network resolved connected result closed =
     \<lparr>gethostbyname = (\<lambda>host. resolved),
      connect = (\<lambda>host port. connected),
      read_holding_registers = (\<lambda>host port address count slave. result),
      close = (\<lambda>host port. closed)\<rparr>"

definition reachable_network :: "exn + response option \<Rightarrow> network" where
  "reachable_network result = fake_network (Inr ''192.0.2.7'') (Inr True) result (Inr ())"

definition unreachable_network :: "exn + bool \<Rightarrow> network" where
  "unreachable_network connected = fake_network (Inr ''192.0.2.7'') connected (Inr None) (Inr ())"

text \<open>
  A resolver that answers as the socket library does for three kinds of host: a name with
  an empty label cannot be encoded and raises \<open>UnicodeError\<close> before any lookup, a name
  with a space in it is not found, any other name resolves.
\<close>

definition idna_resolver :: "string \<Rightarrow> exn + string" where
  "idna_resolver host =
     (if str_in ''..'' host then Inl (Exn UnicodeError ''label empty or too long'')
      else if str_in '' '' host then Inl (Exn gaierror ''[Errno -2] Name or service not known'')
      else Inr ''192.0.2.7'')"

definition idna_network :: network where
  "idna_network =
     \<lparr>gethostbyname = idna_resolver,
      connect = (\<lambda>host port. Inr True),
      read_holding_registers = (\<lambda>host port address count slave. Inr (Some (DataResponse [0]))),
      close = (\<lambda>host port. Inr ())\<rparr>"

definition example_const :: const where
  "example_const =
     \<lparr>DEFAULT_PORT = 502, DEFAULT_UNIT_ID = 1, DEFAULT_SCAN_INTERVALS = (\<lambda>key. 30),
      SUPPORTED_VERSIONS_0 = ''v3''\<rparr>"

definition example_input :: "string \<Rightarrow> int \<Rightarrow> int \<Rightarrow> user_input" where
  "example_input host port unit_id =
     \<lparr>ui_host = Some host, ui_port = Some port, ui_unit_id = Some unit_id,
      ui_device_version = None\<rparr>"

definition example_entry_data :: entry_data where
  "example_entry_data =
     \<lparr>data_host = Some ''battery.lan'', data_port = Some 502,
      data_device_version = Some ''v3'', data_unit_id = Some 1,
      data_high = None, data_medium = None, data_low = None, data_very_low = None\<rparr>"

definition example_config :: config_entry where
  "example_config =
     \<lparr>entry_id = ''entry1'', data = example_entry_data,
      options = \<lparr>opt_unit_id = None, opt_high = None, opt_medium = None, opt_low = None,
                 opt_very_low = None\<rparr>\<rparr>"

definition example_submission :: options_dict where
  "example_submission =
     \<lparr>opt_unit_id = Some 0, opt_high = Some 5000, opt_medium = None, opt_low = Some 120,
      opt_very_low = None\<rparr>"

definition example_coordinator :: coordinator where
  "example_coordinator =
     \<lparr>client_unit_id = 7,
      scan_intervals = \<lparr>opt_unit_id = None, opt_high = None, opt_medium = None, opt_low = None,
                        opt_very_low = None\<rparr>\<rparr>"

definition set_scan_intervals :: "coordinator \<Rightarrow> options_dict \<Rightarrow> coordinator" where
  "set_scan_intervals co ui = co\<lparr>scan_intervals := ui\<rparr>"

section \<open>The three ways through the connection test\<close>

text \<open>
  \<open>connect()\<close> raises, returns a falsy value, or returns a truthy one. Each lemma gives the
  result and the whole trace of that way.
\<close>

lemma probe_connect_raises:
  "connect net host port = Inl e \<Longrightarrow>
   async_test_modbus_connection net host port unit_id =
     (Inr (Some (if isinstance_OSError e then except_OSError e else ''cannot_connect'')),
      [Connect host port, Close])"
  by (simp add: async_test_modbus_connection_def try_body_def finally_close_def
      split: sum.splits)

lemma probe_connect_false:
  "connect net host port = Inr False \<Longrightarrow>
   async_test_modbus_connection net host port unit_id =
     (Inr (Some (except_OSError (Exn ConnectionError ''Unable to connect''))),
      [Connect host port, Close])"
  by (simp add: async_test_modbus_connection_def try_body_def finally_close_def
      split: sum.splits)

lemma probe_connected:
  "connect net host port = Inr True \<Longrightarrow>
   async_test_modbus_connection net host port unit_id =
     (Inr (fst (test_read net host port unit_id)),
      [Connect host port, ReadHoldingRegisters 32101 1 unit_id, Close])"
  by (simp add: async_test_modbus_connection_def try_body_def finally_close_def test_read_def
      split: sum.splits)

lemma unable_to_connect_key:
  "except_OSError (Exn ConnectionError ''Unable to connect'') = ''cannot_connect''"
  by (simp add: except_OSError_def lower_def lower_char_def)

section \<open>Claims about the connection test\<close>

text \<open>
  C1. When the connect succeeds and the register read returns an error response, the
  test returns \<open>None\<close> (success) if the response's exception code is 1, 2, 3 or 4, and
  \<open>"unit_id_no_response"\<close> for any other code, also when the response has no code.
\<close>

theorem exception_code_outcome:
  assumes "connect net host port = Inr True"
    and "read_holding_registers net host port 32101 1 unit_id = Inr (Some (ErrorResponse code))"
  shows "fst (async_test_modbus_connection net host port unit_id) =
           (if code = Some 1 \<or> code = Some 2 \<or> code = Some 3 \<or> code = Some 4 then Inr None
            else Inr (Some ''unit_id_no_response''))"
  using assms by (auto simp add: probe_connected test_read_def check_result_def)

theorem exception_code_outcome_witness:
  "connect (reachable_network (Inr (Some (ErrorResponse (Some 2))))) ''192.0.2.7'' 502 = Inr True \<and>
   read_holding_registers (reachable_network (Inr (Some (ErrorResponse (Some 2)))))
     ''192.0.2.7'' 502 32101 1 1 = Inr (Some (ErrorResponse (Some 2))) \<and>
   fst (async_test_modbus_connection (reachable_network (Inr (Some (ErrorResponse (Some 2)))))
          ''192.0.2.7'' 502 1) = Inr None \<and>
   fst (async_test_modbus_connection (reachable_network (Inr (Some (ErrorResponse (Some 11)))))
          ''192.0.2.7'' 502 1) = Inr (Some ''unit_id_no_response'')"
  using exception_code_outcome
          [of "reachable_network (Inr (Some (ErrorResponse (Some 2))))" "''192.0.2.7''" 502 1 "Some 2"]
        exception_code_outcome
          [of "reachable_network (Inr (Some (ErrorResponse (Some 11))))" "''192.0.2.7''" 502 1 "Some 11"]
  by (simp add: reachable_network_def fake_network_def)

text \<open>
  C10. When the connect succeeds and the register read returns \<open>None\<close> without raising,
  the test returns \<open>"unit_id_no_response"\<close>: neither success nor an exception.
\<close>

theorem none_result_no_response:
  assumes "connect net host port = Inr True"
    and "read_holding_registers net host port 32101 1 unit_id = Inr None"
  shows "fst (async_test_modbus_connection net host port unit_id) =
           Inr (Some ''unit_id_no_response'')"
  using assms by (simp add: probe_connected test_read_def check_result_def)

theorem none_result_no_response_witness:
  "connect (reachable_network (Inr None)) ''192.0.2.7'' 502 = Inr True \<and>
   read_holding_registers (reachable_network (Inr None)) ''192.0.2.7'' 502 32101 1 1 = Inr None \<and>
   fst (async_test_modbus_connection (reachable_network (Inr None)) ''192.0.2.7'' 502 1)
     = Inr (Some ''unit_id_no_response'')"
  using none_result_no_response [of "reachable_network (Inr None)" "''192.0.2.7''" 502 1]
  by (simp add: reachable_network_def fake_network_def)

lemma except_OSError_keys:
  "except_OSError e = ''permission_denied'' \<or> except_OSError e = ''connection_refused'' \<or>
   except_OSError e = ''timed_out'' \<or> except_OSError e = ''cannot_connect''"
  by (simp add: except_OSError_def Let_def)

lemma test_read_keys:
  "fst (test_read net host port unit_id) = None \<or>
   fst (test_read net host port unit_id) = Some ''unit_id_no_response''"
  by (simp add: test_read_def check_result_def split: sum.splits option.splits response.splits)

lemma test_read_raises:
  "read_holding_registers net host port 32101 1 unit_id = Inl e \<Longrightarrow>
   fst (test_read net host port unit_id) = Some ''unit_id_no_response''"
  by (simp add: test_read_def)

text \<open>
  C2. The test never raises: whatever the network does, it returns \<open>None\<close> or one of
  its five error keys. In particular, when the connect succeeded, an exception raised by the
  read, whatever its class, gives \<open>"unit_id_no_response"\<close>.
\<close>

theorem probe_never_raises:
  "(\<exists>key. fst (async_test_modbus_connection net host port unit_id) = Inr key \<and>
      (key = None \<or> key = Some ''unit_id_no_response'' \<or> key = Some ''permission_denied'' \<or>
       key = Some ''connection_refused'' \<or> key = Some ''timed_out'' \<or>
       key = Some ''cannot_connect'')) \<and>
   (connect net host port = Inr True \<longrightarrow>
    read_holding_registers net host port 32101 1 unit_id = Inl e \<longrightarrow>
      fst (async_test_modbus_connection net host port unit_id) = Inr (Some ''unit_id_no_response''))"
proof (cases "connect net host port")
  case (Inl err)
  show ?thesis
    using except_OSError_keys [of err] by (auto simp add: probe_connect_raises [OF Inl] Inl)
next
  case (Inr connected)
  show ?thesis
  proof (cases connected)
    case True
    with Inr have c: "connect net host port = Inr True" by simp
    show ?thesis
      using test_read_keys [of net host port unit_id] test_read_raises [of net host port unit_id e]
      by (auto simp add: probe_connected [OF c])
  next
    case False
    with Inr have c: "connect net host port = Inr False" by simp
    show ?thesis
      by (simp add: probe_connect_false [OF c] unable_to_connect_key c)
  qed
qed

theorem probe_never_raises_witness:
  "connect (reachable_network (Inl (Exn Exception ''boom''))) ''192.0.2.7'' 502 = Inr True \<and>
   read_holding_registers (reachable_network (Inl (Exn Exception ''boom''))) ''192.0.2.7'' 502
     32101 1 1 = Inl (Exn Exception ''boom'') \<and>
   fst (async_test_modbus_connection (reachable_network (Inl (Exn Exception ''boom'')))
          ''192.0.2.7'' 502 1) = Inr (Some ''unit_id_no_response'')"
  using probe_never_raises
          [of "reachable_network (Inl (Exn Exception ''boom''))" "''192.0.2.7''" 502 1
              "Exn Exception ''boom''"]
  by (simp add: reachable_network_def fake_network_def)

text \<open>
  The trace of the test is one of two lists, by the way the connect went.
\<close>

lemma probe_trace:
  "snd (async_test_modbus_connection net host port unit_id) = [Connect host port, Close] \<or>
   snd (async_test_modbus_connection net host port unit_id) =
     [Connect host port, ReadHoldingRegisters 32101 1 unit_id, Close]"
proof (cases "connect net host port")
  case (Inl err)
  then show ?thesis by (simp add: probe_connect_raises)
next
  case (Inr connected)
  then show ?thesis
    by (cases connected) (simp_all add: probe_connected probe_connect_false)
qed

text \<open>
  C4. On every path through the test (success, each error key, an exception of the
  connect, of the read or of \<open>close\<close> itself) \<open>client.close()\<close> is called exactly once,
  and it is the last call before the test returns.
\<close>

theorem close_called_once:
  "count_list (snd (async_test_modbus_connection net host port unit_id)) Close = 1 \<and>
   last (snd (async_test_modbus_connection net host port unit_id)) = Close"
  using probe_trace [of net host port unit_id] by auto

theorem close_called_once_witness:
  "count_list (snd (async_test_modbus_connection (reachable_network (Inl (Exn Exception ''boom'')))
                      ''192.0.2.7'' 502 1)) Close = 1 \<and>
   snd (async_test_modbus_connection (reachable_network (Inl (Exn Exception ''boom'')))
          ''192.0.2.7'' 502 1) =
     [Connect ''192.0.2.7'' 502, ReadHoldingRegisters 32101 1 1, Close] \<and>
   count_list (snd (async_test_modbus_connection
                      (fake_network (Inr ''192.0.2.7'') (Inr False) (Inr None)
                         (Inl (Exn OSError ''already closed'')))
                      ''192.0.2.7'' 502 1)) Close = 1"
  using close_called_once [of "reachable_network (Inl (Exn Exception ''boom''))" "''192.0.2.7''" 502 1]
        close_called_once
          [of "fake_network (Inr ''192.0.2.7'') (Inr False) (Inr None)
                 (Inl (Exn OSError ''already closed''))" "''192.0.2.7''" 502 1]
  by (simp add: probe_connected reachable_network_def fake_network_def)








section \<open>Claims about the user step\<close>

text \<open>
  The loop over the current entries finds an entry exactly when one has the host and the
  unit id of the submission; the port of the entry is not looked at.
\<close>

lemma already_configured_iff:
  "already_configured entries host unit_id \<longleftrightarrow>
     (\<exists>entry \<in> set entries. data_host entry = Some host \<and> data_unit_id entry = Some unit_id)"
  by (induction entries) auto

text \<open>
  C3, as stated, fails: the connection test has no check of the port or of the unit id.
  Called with port 0 it goes on to \<open>connect()\<close>; called with unit id 0 on a device that
  answers, it returns success.
\<close>

theorem range_check_counterexample:
  "async_test_modbus_connection (unreachable_network (Inr False)) ''192.0.2.7'' 0 1 =
     (Inr (Some ''cannot_connect''), [Connect ''192.0.2.7'' 0, Close]) \<and>
   async_test_modbus_connection (reachable_network (Inr (Some (DataResponse [0])))) ''192.0.2.7'' 502 0 =
     (Inr None, [Connect ''192.0.2.7'' 502, ReadHoldingRegisters 32101 1 0, Close])"
  by (simp add: probe_connect_false probe_connected unable_to_connect_key test_read_def
      check_result_def unreachable_network_def reachable_network_def fake_network_def)

text \<open>
  C3, amended. The bounds are enforced by the user step, which calls the test: for a port
  outside 1..65535 it shows the form again with \<open>"invalid_port"\<close>, for a port in range and
  a unit id outside 1..255 with \<open>"invalid_unit_id"\<close>, and in both cases the trace is empty:
  the host is not resolved, the test is not called and no socket is opened.
\<close>

theorem range_check_in_user_step:
  assumes "port = dict_get (ui_port ui) (DEFAULT_PORT c)"
    and "unit_id = dict_get (ui_unit_id ui) (DEFAULT_UNIT_ID c)"
    and "port < 1 \<or> 65535 < port \<or> unit_id < 1 \<or> 255 < unit_id"
  shows "async_step_user c net current_entries labels (Some ui) =
           (Inr (ShowForm ''user''
                   [(''base'',
                     Some (if port < 1 \<or> 65535 < port then ''invalid_port'' else ''invalid_unit_id''))]
                   \<lparr>fd_host = ui_host ui, fd_port = port, fd_unit_id = unit_id,
                    fd_device_version =
                      dict_get (ui_device_version ui) (SUPPORTED_VERSIONS_0 c)\<rparr>),
            [])"
  using assms by (auto simp add: async_step_user_def Let_def)

theorem range_check_in_user_step_witness:
  "async_step_user example_const (reachable_network (Inr None)) [] Map.empty
     (Some (example_input ''192.0.2.7'' 70000 1)) =
     (Inr (ShowForm ''user'' [(''base'', Some ''invalid_port'')]
             \<lparr>fd_host = Some ''192.0.2.7'', fd_port = 70000, fd_unit_id = 1,
              fd_device_version = ''v3''\<rparr>), []) \<and>
   async_step_user example_const (reachable_network (Inr None)) [] Map.empty
     (Some (example_input ''192.0.2.7'' 502 0)) =
     (Inr (ShowForm ''user'' [(''base'', Some ''invalid_unit_id'')]
             \<lparr>fd_host = Some ''192.0.2.7'', fd_port = 502, fd_unit_id = 0,
              fd_device_version = ''v3''\<rparr>), [])"
  using range_check_in_user_step
          [where port = 70000 and ui = "example_input ''192.0.2.7'' 70000 1" and c = example_const
             and unit_id = 1 and net = "reachable_network (Inr None)" and current_entries = "[]"
             and labels = "Map.empty"]
        range_check_in_user_step
          [where port = 502 and ui = "example_input ''192.0.2.7'' 502 0" and c = example_const
             and unit_id = 0 and net = "reachable_network (Inr None)" and current_entries = "[]"
             and labels = "Map.empty"]
  by (simp add: example_input_def example_const_def dict_get_def)

text \<open>
  What the step does with the resolver's answer, for a submission whose port and unit id
  are in range. If the host is missing, or the resolver raises \<open>gaierror\<close> or
  \<open>TypeError\<close> for it, the step shows the form again with \<open>"invalid_host"\<close>, and the
  only call to the network is the resolver's. An exception of the resolver of any other
  class is not caught: it leaves the step.
\<close>

lemma resolver_failure_invalid_host:
  assumes "1 \<le> dict_get (ui_port ui) (DEFAULT_PORT c)"
    and "dict_get (ui_port ui) (DEFAULT_PORT c) \<le> 65535"
    and "1 \<le> dict_get (ui_unit_id ui) (DEFAULT_UNIT_ID c)"
    and "dict_get (ui_unit_id ui) (DEFAULT_UNIT_ID c) \<le> 255"
    and "ui_host ui = None \<or>
         (\<exists>h e. ui_host ui = Some h \<and> gethostbyname net h = Inl e \<and>
                isinstance_gaierror_or_TypeError e)"
  shows "async_step_user c net current_entries labels (Some ui) =
           (Inr (show_user_form c (Some ui) [(''base'', Some ''invalid_host'')]),
            [GetHostByName (ui_host ui)])"
  using assms by (auto simp add: async_step_user_def Let_def)

lemma resolver_other_exception:
  assumes "1 \<le> dict_get (ui_port ui) (DEFAULT_PORT c)"
    and "dict_get (ui_port ui) (DEFAULT_PORT c) \<le> 65535"
    and "1 \<le> dict_get (ui_unit_id ui) (DEFAULT_UNIT_ID c)"
    and "dict_get (ui_unit_id ui) (DEFAULT_UNIT_ID c) \<le> 255"
    and "ui_host ui = Some h" and "gethostbyname net h = Inl e"
    and "\<not> isinstance_gaierror_or_TypeError e"
  shows "async_step_user c net current_entries labels (Some ui) =
           (Inl e, [GetHostByName (Some h)])"
  using assms by (simp add: async_step_user_def Let_def)

text \<open>
  C6. A host that fails to resolve, or is malformed, should give \<open>"invalid_host"\<close>
  before any socket is opened. The step checks the host first, and opens no socket, but its
  handler names \<open>gaierror\<close> and \<open>TypeError\<close> only. For the malformed host \<open>a..b\<close>,
  submitted with port 502 and unit id 1, the resolver raises \<open>UnicodeError\<close>, and the step
  ends with that exception: it gives no \<open>"invalid_host"\<close>, and no form at all. With the
  same network a host that fails with \<open>gaierror\<close> gives \<open>"invalid_host"\<close>.
\<close>

theorem malformed_host_raises:
  "async_step_user example_const idna_network [] Map.empty (Some (example_input ''a..b'' 502 1)) =
     (Inl (Exn UnicodeError ''label empty or too long''), [GetHostByName (Some ''a..b'')]) \<and>
   async_step_user example_const idna_network [] Map.empty
     (Some (example_input ''no such host'' 502 1)) =
     (Inr (ShowForm ''user'' [(''base'', Some ''invalid_host'')]
             \<lparr>fd_host = Some ''no such host'', fd_port = 502, fd_unit_id = 1,
              fd_device_version = ''v3''\<rparr>),
      [GetHostByName (Some ''no such host'')])"
  by (simp add: async_step_user_def Let_def example_input_def example_const_def dict_get_def
      idna_network_def idna_resolver_def show_user_form_def str_or_def int_or_def)

text \<open>
  C7, as stated, fails: the host is resolved before the current entries are looked at. A
  submission that repeats the host and unit id of a registered entry, at a moment when the
  host does not resolve, gives \<open>"invalid_host"\<close> and no abort.
\<close>

theorem duplicate_counterexample:
  "async_step_user example_const
     (fake_network (Inl (Exn gaierror ''[Errno -2] Name or service not known'')) (Inr True)
        (Inr None) (Inr ()))
     [example_entry_data] Map.empty (Some (example_input ''battery.lan'' 502 1)) =
     (Inr (ShowForm ''user'' [(''base'', Some ''invalid_host'')]
             \<lparr>fd_host = Some ''battery.lan'', fd_port = 502, fd_unit_id = 1,
              fd_device_version = ''v3''\<rparr>),
      [GetHostByName (Some ''battery.lan'')]) \<and>
   data_host example_entry_data = Some ''battery.lan'' \<and>
   data_unit_id example_entry_data = Some 1"
  by (simp add: async_step_user_def Let_def example_input_def example_const_def dict_get_def
      fake_network_def show_user_form_def str_or_def int_or_def example_entry_data_def)

text \<open>
  C7, amended. For a submission whose port and unit id are in range and whose host
  resolves: if some current entry has the same host and the same unit id, the step aborts
  with \<open>"already_configured"\<close>, and the only call to the network is the resolver's: the
  connection test is not called. The port plays no part: it occurs in no condition on the
  entry.
\<close>

theorem duplicate_aborts_before_probe:
  assumes "1 \<le> dict_get (ui_port ui) (DEFAULT_PORT c)"
    and "dict_get (ui_port ui) (DEFAULT_PORT c) \<le> 65535"
    and "unit_id = dict_get (ui_unit_id ui) (DEFAULT_UNIT_ID c)"
    and "1 \<le> unit_id" and "unit_id \<le> 255"
    and "ui_host ui = Some host"
    and "gethostbyname net host = Inr address"
    and "entry \<in> set current_entries"
    and "data_host entry = Some host" and "data_unit_id entry = Some unit_id"
  shows "async_step_user c net current_entries labels (Some ui) =
           (Inr (Abort ''already_configured''), [GetHostByName (Some host)])"
proof -
  have "already_configured current_entries host unit_id"
    using assms(8-10) by (auto simp add: already_configured_iff)
  then show ?thesis
    using assms(1-7) by (simp add: async_step_user_def Let_def)
qed

theorem duplicate_aborts_before_probe_witness:
  "async_step_user example_const (reachable_network (Inr (Some (DataResponse [0]))))
     [example_entry_data] Map.empty (Some (example_input ''battery.lan'' 1502 1)) =
     (Inr (Abort ''already_configured''), [GetHostByName (Some ''battery.lan'')]) \<and>
   data_port example_entry_data = Some 502"
  using duplicate_aborts_before_probe
          [where ui = "example_input ''battery.lan'' 1502 1" and c = example_const
             and unit_id = 1 and host = "''battery.lan''"
             and net = "reachable_network (Inr (Some (DataResponse [0])))"
             and address = "''192.0.2.7''" and entry = example_entry_data
             and current_entries = "[example_entry_data]" and labels = "Map.empty"]
  by (simp add: example_input_def example_const_def dict_get_def reachable_network_def
      fake_network_def example_entry_data_def)

section \<open>Claims about the options flow\<close>

text \<open>
  With input the options step creates the entry from the input as it is, so the options
  stored by one pass through the flow are the submission as the form's schema validated it.
\<close>

lemma step_init_entry:
  "fst (async_step_init c u coord config (Some ui)) = OptionsCreateEntry ui"
  by (simp add: async_step_init_def Let_def split: option.splits)

lemma reconcile_entry:
  "fst (reconcile c u coord config submitted) =
     config\<lparr>options := validate_schema (init_schema c config) submitted\<rparr>"
proof -
  obtain result ns coord' where
    r: "async_step_init c u coord config (Some (validate_schema (init_schema c config) submitted))
          = (result, ns, coord')"
    by (cases "async_step_init c u coord config
                 (Some (validate_schema (init_schema c config) submitted))") auto
  have "result = OptionsCreateEntry (validate_schema (init_schema c config) submitted)"
    using step_init_entry [of c u coord config "validate_schema (init_schema c config) submitted"] r
    by simp
  then show ?thesis
    using r by (simp add: reconcile_def)
qed

lemma reconcile_options:
  "options (fst (reconcile c u coord config submitted)) =
     validate_schema (init_schema c config) submitted"
  by (simp add: reconcile_entry)

text \<open>
  \<open>Clamp\<close> on a non-empty range, and what the schema does to one key.
\<close>

lemma Clamp_max_min: "lo \<le> hi \<Longrightarrow> Clamp lo hi v = max lo (min hi v)"
  by (simp add: Clamp_def Let_def max_def min_def)

lemma Clamp_in_range: "lo \<le> v \<Longrightarrow> v \<le> hi \<Longrightarrow> Clamp lo hi v = v"
  by (simp add: Clamp_def Let_def)

lemma Clamp_Clamp: "lo \<le> hi \<Longrightarrow> Clamp lo hi (Clamp lo hi v) = Clamp lo hi v"
  by (simp add: Clamp_def Let_def)

lemma validate_field_submitted:
  "fs_min fs \<le> fs_max fs \<Longrightarrow>
   validate_field fs (Some v) = Some (max (fs_min fs) (min (fs_max fs) v))"
  by (simp add: validate_field_def Coerce_int_def dict_get_def Clamp_max_min)

lemma validate_field_absent:
  "fs_min fs \<le> fs_default fs \<Longrightarrow> fs_default fs \<le> fs_max fs \<Longrightarrow>
   validate_field fs None = Some (fs_default fs)"
  by (simp add: validate_field_def Coerce_int_def dict_get_def Clamp_in_range)

lemma validate_field_absent_clamped:
  "fs_min fs \<le> fs_max fs \<Longrightarrow>
   validate_field fs None = Some (max (fs_min fs) (min (fs_max fs) (fs_default fs)))"
  by (simp add: validate_field_def Coerce_int_def dict_get_def Clamp_max_min)

text \<open>
  C8. In one pass through the options flow, for the unit id and each of the four rates: a
  submitted value is stored clamped into the key's range, 1..255 for the unit id and
  1..3600 for a rate (so 5000 is stored as 3600, and a unit id of 0 as 1); a key that is
  absent from the submission is stored with the existing value, which is the entry's option,
  else the entry's data, else the constant default. The existing value passes through the
  same clamp, so it is kept as it is when it lies in the range, as every value this flow
  or the user step has stored does.
\<close>

theorem reconcile_clamps_and_keeps:
  "(opt_unit_id submitted = Some v \<longrightarrow>
      opt_unit_id (options (fst (reconcile c u coord config submitted))) = Some (max 1 (min 255 v))) \<and>
   (opt_high submitted = Some v \<longrightarrow>
      opt_high (options (fst (reconcile c u coord config submitted))) = Some (max 1 (min 3600 v))) \<and>
   (opt_medium submitted = Some v \<longrightarrow>
      opt_medium (options (fst (reconcile c u coord config submitted))) = Some (max 1 (min 3600 v))) \<and>
   (opt_low submitted = Some v \<longrightarrow>
      opt_low (options (fst (reconcile c u coord config submitted))) = Some (max 1 (min 3600 v))) \<and>
   (opt_very_low submitted = Some v \<longrightarrow>
      opt_very_low (options (fst (reconcile c u coord config submitted))) =
        Some (max 1 (min 3600 v))) \<and>
   (opt_unit_id submitted = None \<longrightarrow>
    d = dict_get (opt_unit_id (options config))
          (dict_get (data_unit_id (data config)) (DEFAULT_UNIT_ID c)) \<longrightarrow>
    1 \<le> d \<longrightarrow> d \<le> 255 \<longrightarrow>
      opt_unit_id (options (fst (reconcile c u coord config submitted))) = Some d) \<and>
   (opt_high submitted = None \<longrightarrow>
    d = dict_get (opt_high (options config))
          (dict_get (data_high (data config)) (DEFAULT_SCAN_INTERVALS c ''high'')) \<longrightarrow>
    1 \<le> d \<longrightarrow> d \<le> 3600 \<longrightarrow>
      opt_high (options (fst (reconcile c u coord config submitted))) = Some d) \<and>
   (opt_medium submitted = None \<longrightarrow>
    d = dict_get (opt_medium (options config))
          (dict_get (data_medium (data config)) (DEFAULT_SCAN_INTERVALS c ''medium'')) \<longrightarrow>
    1 \<le> d \<longrightarrow> d \<le> 3600 \<longrightarrow>
      opt_medium (options (fst (reconcile c u coord config submitted))) = Some d) \<and>
   (opt_low submitted = None \<longrightarrow>
    d = dict_get (opt_low (options config))
          (dict_get (data_low (data config)) (DEFAULT_SCAN_INTERVALS c ''low'')) \<longrightarrow>
    1 \<le> d \<longrightarrow> d \<le> 3600 \<longrightarrow>
      opt_low (options (fst (reconcile c u coord config submitted))) = Some d) \<and>
   (opt_very_low submitted = None \<longrightarrow>
    d = dict_get (opt_very_low (options config))
          (dict_get (data_very_low (data config)) (DEFAULT_SCAN_INTERVALS c ''very_low'')) \<longrightarrow>
    1 \<le> d \<longrightarrow> d \<le> 3600 \<longrightarrow>
      opt_very_low (options (fst (reconcile c u coord config submitted))) = Some d)"
  by (simp add: reconcile_options validate_schema_def init_schema_def validate_field_submitted
      validate_field_absent interval_default_def unit_id_default_def)

theorem reconcile_clamps_and_keeps_witness:
  "options (fst (reconcile example_const set_scan_intervals (Some example_coordinator)
                   example_config example_submission)) =
     \<lparr>opt_unit_id = Some 1, opt_high = Some 3600, opt_medium = Some 30, opt_low = Some 120,
      opt_very_low = Some 30\<rparr>"
proof -
  let ?r = "options (fst (reconcile example_const set_scan_intervals (Some example_coordinator)
                            example_config example_submission))"
  have "opt_unit_id ?r = Some 1"
    using reconcile_clamps_and_keeps
            [where submitted = example_submission and v = 0 and c = example_const
               and u = set_scan_intervals and coord = "Some example_coordinator"
               and config = example_config and d = 30]
    by (simp add: example_submission_def)
  moreover have "opt_high ?r = Some 3600"
    using reconcile_clamps_and_keeps
            [where submitted = example_submission and v = 5000 and c = example_const
               and u = set_scan_intervals and coord = "Some example_coordinator"
               and config = example_config and d = 30]
    by (simp add: example_submission_def)
  moreover have "opt_low ?r = Some 120"
    using reconcile_clamps_and_keeps
            [where submitted = example_submission and v = 120 and c = example_const
               and u = set_scan_intervals and coord = "Some example_coordinator"
               and config = example_config and d = 30]
    by (simp add: example_submission_def)
  moreover have "opt_medium ?r = Some 30 \<and> opt_very_low ?r = Some 30"
    using reconcile_clamps_and_keeps
            [where submitted = example_submission and v = 0 and c = example_const
               and u = set_scan_intervals and coord = "Some example_coordinator"
               and config = example_config and d = 30]
    by (simp add: example_submission_def example_config_def example_const_def
        example_entry_data_def dict_get_def)
  ultimately show ?thesis
    by (cases ?r) simp
qed

text \<open>
  Validating the same submission against the schema of the updated entry changes nothing:
  a submitted value is clamped as before, and an absent one now defaults to a value that
  is already clamped.
\<close>

lemma validate_schema_twice:
  "validate_schema (init_schema c (config\<lparr>options := validate_schema (init_schema c config) s\<rparr>)) s
     = validate_schema (init_schema c config) s"
  by (simp add: validate_schema_def init_schema_def validate_field_def interval_default_def
      unit_id_default_def dict_get_def Coerce_int_def Clamp_Clamp split: option.splits)

lemma reconcile_twice_entry:
  "fst (reconcile c u' coord' (fst (reconcile c u coord config s)) s) =
     fst (reconcile c u coord config s)"
  by (simp add: reconcile_entry validate_schema_twice)

text \<open>
  The notifications of the options step carry the input and its unit id, and depend on the
  config entry only through the default of a unit id that the input lacks.
\<close>

lemma step_init_notifications:
  "opt_unit_id ui = Some uid \<Longrightarrow>
   set (fst (snd (async_step_init c u coord config (Some ui))))
     \<subseteq> {UpdateScanIntervals ui, SetUnitId uid}"
  by (simp add: async_step_init_def Let_def dict_get_def split: option.splits)

lemma step_init_same_input:
  "opt_unit_id ui = Some uid \<Longrightarrow>
   snd (async_step_init c u coord config' (Some ui)) = snd (async_step_init c u coord config (Some ui))"
  by (simp add: async_step_init_def Let_def dict_get_def split: option.splits)

lemma reconcile_notifications:
  "fst (snd (reconcile c u coord config s)) =
     fst (snd (async_step_init c u coord config (Some (validate_schema (init_schema c config) s))))"
  by (cases "async_step_init c u coord config (Some (validate_schema (init_schema c config) s))")
     (auto simp add: reconcile_def)

lemma reconcile_snd:
  "snd (reconcile c u coord config s) =
     snd (async_step_init c u coord config (Some (validate_schema (init_schema c config) s)))"
  by (cases "async_step_init c u coord config (Some (validate_schema (init_schema c config) s))")
     (auto simp add: reconcile_def)

lemma validated_unit_id:
  "\<exists>uid. opt_unit_id (validate_schema schema s) = Some uid"
  by (simp add: validate_schema_def validate_field_def)

text \<open>
  C9. Reconciling is idempotent. Run again on the entry it produced, with the same
  submission, a pass returns the same entry, whatever the coordinator is by then; with the
  coordinator as it was, the whole result is the same, notifications included. Every
  notification of either pass is the update of the intervals with the stored values or the
  change of the unit id to the stored unit id: a repeated notification has the content of
  the first.
\<close>

theorem reconcile_idempotent:
  "reconcile c u coord (fst (reconcile c u coord config s)) s = reconcile c u coord config s \<and>
   fst (reconcile c u' coord' (fst (reconcile c u coord config s)) s) =
     fst (reconcile c u coord config s) \<and>
   (\<exists>uid. opt_unit_id (options (fst (reconcile c u coord config s))) = Some uid \<and>
      set (fst (snd (reconcile c u coord config s)))
        \<subseteq> {UpdateScanIntervals (options (fst (reconcile c u coord config s))), SetUnitId uid} \<and>
      set (fst (snd (reconcile c u' coord' (fst (reconcile c u coord config s)) s)))
        \<subseteq> {UpdateScanIntervals (options (fst (reconcile c u coord config s))), SetUnitId uid})"
proof (intro conjI)
  let ?ui = "validate_schema (init_schema c config) s"
  let ?config1 = "fst (reconcile c u coord config s)"
  obtain uid where uid: "opt_unit_id ?ui = Some uid"
    using validated_unit_id by blast
  have ui2: "validate_schema (init_schema c ?config1) s = ?ui"
    by (simp add: reconcile_entry validate_schema_twice)
  show "fst (reconcile c u' coord' ?config1 s) = ?config1"
    by (rule reconcile_twice_entry)
  have "snd (reconcile c u coord ?config1 s) = snd (reconcile c u coord config s)"
    using step_init_same_input [OF uid] by (simp add: reconcile_snd ui2)
  then show "reconcile c u coord ?config1 s = reconcile c u coord config s"
    using reconcile_twice_entry [of c u coord u coord config s] by (simp add: prod_eq_iff)
  have n1: "set (fst (snd (reconcile c u coord config s))) \<subseteq> {UpdateScanIntervals ?ui, SetUnitId uid}"
    using step_init_notifications [OF uid] by (simp add: reconcile_notifications)
  have n2: "set (fst (snd (reconcile c u' coord' ?config1 s)))
              \<subseteq> {UpdateScanIntervals ?ui, SetUnitId uid}"
    using step_init_notifications [OF uid] by (simp add: reconcile_notifications ui2)
  show "\<exists>uid. opt_unit_id (options ?config1) = Some uid \<and>
      set (fst (snd (reconcile c u coord config s)))
        \<subseteq> {UpdateScanIntervals (options ?config1), SetUnitId uid} \<and>
      set (fst (snd (reconcile c u' coord' ?config1 s)))
        \<subseteq> {UpdateScanIntervals (options ?config1), SetUnitId uid}"
    using uid n1 n2 by (simp add: reconcile_options)
qed

text \<open>
  Two passes on the example: the second repeats the update of the intervals and, the unit
  id being set already, sends nothing else.
\<close>

lemma example_first_pass:
  "reconcile example_const set_scan_intervals (Some example_coordinator) example_config
     example_submission =
     (example_config\<lparr>options :=
        \<lparr>opt_unit_id = Some 1, opt_high = Some 3600, opt_medium = Some 30, opt_low = Some 120,
         opt_very_low = Some 30\<rparr>\<rparr>,
      [UpdateScanIntervals
         \<lparr>opt_unit_id = Some 1, opt_high = Some 3600, opt_medium = Some 30, opt_low = Some 120,
          opt_very_low = Some 30\<rparr>,
       SetUnitId 1],
      Some \<lparr>client_unit_id = 1,
            scan_intervals =
              \<lparr>opt_unit_id = Some 1, opt_high = Some 3600, opt_medium = Some 30,
               opt_low = Some 120, opt_very_low = Some 30\<rparr>\<rparr>)"
  by (simp add: reconcile_def async_step_init_def validate_schema_def validate_field_def
      init_schema_def interval_default_def unit_id_default_def dict_get_def Coerce_int_def
      Clamp_def Let_def example_const_def example_config_def example_entry_data_def
      example_submission_def example_coordinator_def set_scan_intervals_def)

lemma example_second_pass:
  "reconcile example_const set_scan_intervals
     (Some \<lparr>client_unit_id = 1,
            scan_intervals =
              \<lparr>opt_unit_id = Some 1, opt_high = Some 3600, opt_medium = Some 30,
               opt_low = Some 120, opt_very_low = Some 30\<rparr>\<rparr>)
     (example_config\<lparr>options :=
        \<lparr>opt_unit_id = Some 1, opt_high = Some 3600, opt_medium = Some 30, opt_low = Some 120,
         opt_very_low = Some 30\<rparr>\<rparr>)
     example_submission =
     (example_config\<lparr>options :=
        \<lparr>opt_unit_id = Some 1, opt_high = Some 3600, opt_medium = Some 30, opt_low = Some 120,
         opt_very_low = Some 30\<rparr>\<rparr>,
      [UpdateScanIntervals
         \<lparr>opt_unit_id = Some 1, opt_high = Some 3600, opt_medium = Some 30, opt_low = Some 120,
          opt_very_low = Some 30\<rparr>],
      Some \<lparr>client_unit_id = 1,
            scan_intervals =
              \<lparr>opt_unit_id = Some 1, opt_high = Some 3600, opt_medium = Some 30,
               opt_low = Some 120, opt_very_low = Some 30\<rparr>\<rparr>)"
  by (simp add: reconcile_def async_step_init_def validate_schema_def validate_field_def
      init_schema_def interval_default_def unit_id_default_def dict_get_def Coerce_int_def
      Clamp_def Let_def example_const_def example_config_def example_entry_data_def
      example_submission_def set_scan_intervals_def)

theorem reconcile_idempotent_witness:
  "fst (reconcile example_const set_scan_intervals
          (snd (snd (reconcile example_const set_scan_intervals (Some example_coordinator)
                       example_config example_submission)))
          (fst (reconcile example_const set_scan_intervals (Some example_coordinator)
                  example_config example_submission))
          example_submission) =
     fst (reconcile example_const set_scan_intervals (Some example_coordinator) example_config
            example_submission) \<and>
   opt_high (options (fst (reconcile example_const set_scan_intervals (Some example_coordinator)
                             example_config example_submission))) = Some 3600 \<and>
   fst (snd (reconcile example_const set_scan_intervals (Some example_coordinator) example_config
               example_submission)) =
     [UpdateScanIntervals
        \<lparr>opt_unit_id = Some 1, opt_high = Some 3600, opt_medium = Some 30, opt_low = Some 120,
         opt_very_low = Some 30\<rparr>,
      SetUnitId 1] \<and>
   fst (snd (reconcile example_const set_scan_intervals
               (snd (snd (reconcile example_const set_scan_intervals (Some example_coordinator)
                            example_config example_submission)))
               (fst (reconcile example_const set_scan_intervals (Some example_coordinator)
                       example_config example_submission))
               example_submission)) =
     [UpdateScanIntervals
        \<lparr>opt_unit_id = Some 1, opt_high = Some 3600, opt_medium = Some 30, opt_low = Some 120,
         opt_very_low = Some 30\<rparr>]"
  using reconcile_idempotent
          [where c = example_const and u = set_scan_intervals
             and coord = "Some example_coordinator" and config = example_config
             and s = example_submission and u' = set_scan_intervals
             and coord' = "snd (snd (reconcile example_const set_scan_intervals
                                      (Some example_coordinator) example_config
                                      example_submission))"]
  by (simp add: example_first_pass example_second_pass)

end
